theory Spec2Isabelle
  imports Complex_Main
begin

section \<open>A shallow embedding of the ray tracer\<close>

text \<open>
  The source computes with 64-bit floating-point numbers (numpy arrays of three
  components). The embedding reads every scalar as a real number: rounding is not
  modelled. Python's own division (\<open>/\<close> on \<open>int\<close> and \<open>float\<close>) raises
  \<open>ZeroDivisionError\<close> on a zero divisor, and that is a branch of the model. A numpy
  division does not raise: on finite inputs the only numpy divisions by zero of the source
  are \<open>0/0\<close> (a zero vector divided by its zero norm, and the near root of a ray with a
  zero direction), whose value is NaN. NaN is a value of the model where the source can
  produce it: \<open>None\<close> for a vector whose components are NaN, \<open>Color_nan\<close> for such a color.
\<close>

datatype py_error = ZeroDivisionError | TypeError | UnboundLocalError | IndexError | ValueError

subsection \<open>Vector and Point\<close>

datatype vector = Vector (vec_x: real) (vec_y: real) (vec_z: real)

text \<open>\<open>class Point(Vector)\<close> adds no state and no behaviour.\<close>

type_synonym point = vector

fun vector_add :: "vector \<Rightarrow> vector \<Rightarrow> vector" where
  "vector_add (Vector a b c) (Vector d e f) = Vector (a + d) (b + e) (c + f)"

fun vector_sub :: "vector \<Rightarrow> vector \<Rightarrow> vector" where
  "vector_sub (Vector a b c) (Vector d e f) = Vector (a - d) (b - e) (c - f)"

text \<open>\<open>__mul__\<close> and \<open>__rmul__\<close> with a number: \<open>self.xyz * other\<close>.\<close>

fun vector_mul :: "vector \<Rightarrow> real \<Rightarrow> vector" where
  "vector_mul (Vector a b c) k = Vector (a * k) (b * k) (c * k)"

text \<open>\<open>__matmul__\<close> and \<open>dot\<close>: \<open>np.dot(self.xyz, other.xyz)\<close>.\<close>

fun dot :: "vector \<Rightarrow> vector \<Rightarrow> real" where
  "dot (Vector a b c) (Vector d e f) = a * d + b * e + c * f"

definition squared_norm :: "vector \<Rightarrow> real" where
  "squared_norm v = dot v v"

text \<open>\<open>norm\<close>: \<open>np.linalg.norm(self.xyz)\<close>, the Euclidean length.\<close>

fun vector_norm :: "vector \<Rightarrow> real" where
  "vector_norm (Vector a b c) = sqrt (a\<^sup>2 + b\<^sup>2 + c\<^sup>2)"

text \<open>
  \<open>normalize\<close>: \<open>self / self.norm()\<close>, a numpy division. The norm is zero only for the zero
  vector, and then every component is \<open>0/0\<close>: the result is the NaN vector, \<open>None\<close>.
\<close>

definition vector_normalize :: "vector \<Rightarrow> vector option" where
  "vector_normalize v =
     (if vector_norm v = 0 then None
      else Some (Vector (vec_x v / vector_norm v) (vec_y v / vector_norm v)
                        (vec_z v / vector_norm v)))"

subsection \<open>Color\<close>

datatype color = Color real real real | Color_nan

fun color_add :: "color \<Rightarrow> color \<Rightarrow> color" where
  "color_add (Color a b c) (Color d e f) = Color (a + d) (b + e) (c + f)"
| "color_add _ _ = Color_nan"

fun color_mul :: "color \<Rightarrow> real \<Rightarrow> color" where
  "color_mul (Color a b c) k = Color (a * k) (b * k) (c * k)"
| "color_mul Color_nan k = Color_nan"

text \<open>
  \<open>BLACK = Color.from_hex('#000000')\<close> and \<open>WHITE = Color.from_hex('#FFFFFF')\<close>: each channel is
  \<open>int('00', 16) / 255\<close>, respectively \<open>int('FF', 16) / 255\<close>.
\<close>

definition BLACK :: color where
  "BLACK = Color (0 / 255) (0 / 255) (0 / 255)"

definition WHITE :: color where
  "WHITE = Color (255 / 255) (255 / 255) (255 / 255)"

subsection \<open>Ray\<close>

record ray =
  origin :: point
  direction :: vector

definition point_at :: "ray \<Rightarrow> real \<Rightarrow> point" where
  "point_at r t = vector_add (origin r) (vector_mul (direction r) t)"

definition from_points :: "point \<Rightarrow> point \<Rightarrow> ray" where
  "from_points tail head = \<lparr>origin = tail, direction = vector_sub head tail\<rparr>"

text \<open>
  \<open>bg_color\<close>: \<open>t = self.direction.normalize().y\<close>, then \<open>t*WHITE + (1-t)*BLACK\<close>. With the
  NaN vector, \<open>t\<close> is NaN and so is every channel of the result.
\<close>

definition bg_color :: "ray \<Rightarrow> color" where
  "bg_color r =
     (case vector_normalize (direction r) of
        None \<Rightarrow> Color_nan
      | Some n \<Rightarrow> (let t = vec_y n in color_add (color_mul WHITE t) (color_mul BLACK (1 - t))))"

subsection \<open>Material, Light, Sphere\<close>

text \<open>
  The exponent \<open>specular_k\<close> is read as a natural number, as its default \<open>50\<close> is. The field
  \<open>color\<close> of a light is \<open>light_color\<close> here, to keep it apart from the material's.
\<close>

record material =
  color :: color
  ambient :: real
  diffuse :: real
  specular :: real
  specular_k :: nat

record light =
  position :: point
  light_color :: color

record sphere =
  center :: point
  radius :: real
  material :: material

text \<open>
  \<open>intersect\<close>. \<open>2 * center_to_origin @ ray.direction\<close> parses as
  \<open>(2 * center_to_origin) @ ray.direction\<close>. The near root is a numpy division: with
  \<open>a = 0\<close> the direction is zero, so \<open>b = 0\<close> and \<open>d = 0\<close>, the root is \<open>0/0\<close>, NaN, and the
  comparison \<open>t >= 0\<close> is false.
\<close>

definition intersect :: "sphere \<Rightarrow> ray \<Rightarrow> real option" where
  "intersect s r =
     (let center_to_origin = vector_sub (origin r) (center s);
          a = squared_norm (direction r);
          b = dot (vector_mul center_to_origin 2) (direction r);
          c = squared_norm center_to_origin - (radius s)\<^sup>2;
          d = b\<^sup>2 - 4 * a * c
      in if d \<ge> 0 then
           (if 2 * a = 0 then None
            else (let t = (- b - sqrt d) / (2 * a) in if t \<ge> 0 then Some t else None))
         else None)"

definition normal_at :: "sphere \<Rightarrow> point \<Rightarrow> vector option" where
  "normal_at s point_on_sphere = vector_normalize (vector_sub point_on_sphere (center s))"

subsection \<open>Scene\<close>

record scene =
  camera :: "point option"
  objects :: "sphere list"
  lights :: "light list"

text \<open>
  \<open>find_nearest\<close>. The loop assigns \<open>dist_min\<close> and \<open>object_hit\<close> together, so the pair is
  one optional value: \<open>None\<close> while both are \<open>None\<close>. A \<open>Sphere\<close> object is always true in a
  condition (the class defines neither \<open>__bool__\<close> nor \<open>__len__\<close>). The variable \<open>dist\<close> of the
  source is \<open>dst\<close> here.
\<close>

definition find_nearest_step :: "ray \<Rightarrow> (real \<times> sphere) option \<Rightarrow> sphere \<Rightarrow> (real \<times> sphere) option" where
  "find_nearest_step r st ob =
     (case intersect ob r of
        None \<Rightarrow> st
      | Some dst \<Rightarrow>
          (case st of
             None \<Rightarrow> Some (dst, ob)
           | Some (dist_min, object_hit) \<Rightarrow> if dst < dist_min then Some (dst, ob) else st))"

fun find_nearest_loop :: "ray \<Rightarrow> sphere list \<Rightarrow> (real \<times> sphere) option \<Rightarrow> (real \<times> sphere) option" where
  "find_nearest_loop r [] st = st"
| "find_nearest_loop r (ob # obs) st = find_nearest_loop r obs (find_nearest_step r st ob)"

definition find_nearest :: "scene \<Rightarrow> ray \<Rightarrow> point option \<times> sphere option" where
  "find_nearest s r =
     (case find_nearest_loop r (objects s) None of
        None \<Rightarrow> (None, None)
      | Some (dist_min, object_hit) \<Rightarrow> (Some (point_at r dist_min), Some object_hit))"

text \<open>
  \<open>max(0, v)\<close> keeps its first argument unless \<open>v > 0\<close>; with \<open>v\<close> NaN the comparison is
  false and the result is \<open>0\<close>. A dot product with the NaN vector is NaN.
\<close>

fun dot_nan :: "vector option \<Rightarrow> vector option \<Rightarrow> real option" where
  "dot_nan (Some v) (Some w) = Some (dot v w)"
| "dot_nan _ _ = None"

fun max0 :: "real option \<Rightarrow> real" where
  "max0 None = 0"
| "max0 (Some v) = max 0 v"

text \<open>
  The body of the loop of \<open>color_at\<close>, for one light: the value that \<open>color\<close> holds at the
  end of the iteration. \<open>**\<close> binds tighter than \<open>*\<close>.
\<close>

definition color_at_light :: "vector option \<Rightarrow> material \<Rightarrow> vector \<Rightarrow> point \<Rightarrow> light \<Rightarrow> color" where
  "color_at_light normal m to_cam point_hit l =
     (let to_light = from_points point_hit (position l);
          col = color_mul (color_mul (material.color m) (diffuse m))
                  (max0 (dot_nan normal (Some (direction to_light))));
          half_vector = vector_normalize (vector_add (direction to_light) to_cam)
      in color_add col
           (color_mul (color_mul (light_color l) (specular m))
              (max0 (dot_nan normal half_vector) ^ specular_k m)))"

text \<open>
  The loop of \<open>color_at\<close>. The variable \<open>color\<close> is unbound before the first iteration
  (\<open>None\<close>), and every iteration assigns it with \<open>color = ...\<close> before \<open>color += ...\<close>.
\<close>

fun color_at_loop :: "vector option \<Rightarrow> material \<Rightarrow> vector \<Rightarrow> point \<Rightarrow> light list \<Rightarrow> color option \<Rightarrow> color option" where
  "color_at_loop normal m to_cam point_hit [] col = col"
| "color_at_loop normal m to_cam point_hit (l # ls) col =
     color_at_loop normal m to_cam point_hit ls (Some (color_at_light normal m to_cam point_hit l))"

text \<open>
  \<open>color_at\<close>. \<open>self.camera - point_hit\<close> with the camera still \<open>None\<close> is a \<open>TypeError\<close>;
  \<open>return color\<close> with \<open>color\<close> unbound is an \<open>UnboundLocalError\<close>.
\<close>

definition color_at :: "scene \<Rightarrow> ray \<Rightarrow> point \<Rightarrow> sphere \<Rightarrow> py_error + color" where
  "color_at s r point_hit object_hit =
     (let normal = normal_at object_hit point_hit;
          m = material object_hit
      in case camera s of
           None \<Rightarrow> Inl TypeError
         | Some cam \<Rightarrow>
             (let to_cam = vector_sub cam point_hit
              in case color_at_loop normal m to_cam point_hit (lights s) None of
                   None \<Rightarrow> Inl UnboundLocalError
                 | Some col \<Rightarrow> Inr col))"

text \<open>
  \<open>trace\<close>. \<open>find_nearest\<close> returns a point exactly when it returns an object; the case of
  an object without a point (\<open>None - self.center\<close>, a \<open>TypeError\<close>) is never reached.
\<close>

definition trace :: "scene \<Rightarrow> ray \<Rightarrow> py_error + color" where
  "trace s r =
     (case find_nearest s r of
        (_, None) \<Rightarrow> Inr (bg_color r)
      | (None, Some object_hit) \<Rightarrow> Inl TypeError
      | (Some point_hit, Some object_hit) \<Rightarrow> color_at s r point_hit object_hit)"

subsection \<open>Image\<close>

record image =
  width :: int
  height :: int
  pixels :: "color option list list"

text \<open>\<open>range(n)\<close> as a list: empty when \<open>n \<le> 0\<close>.\<close>

definition py_range :: "int \<Rightarrow> int list" where
  "py_range n = map int [0..<nat n]"

definition Image :: "int \<Rightarrow> int \<Rightarrow> image" where
  "Image w h =
     \<lparr>width = w, height = h,
      pixels = map (\<lambda>y. map (\<lambda>x. None) (py_range w)) (py_range h)\<rparr>"

text \<open>
  \<open>set_pixel\<close>: \<open>self.pixels[y][x] = color\<close>. A Python list index \<open>i\<close> with
  \<open>-len \<le> i < 0\<close> counts from the end; an index outside \<open>-len \<le> i < len\<close> raises
  \<open>IndexError\<close>. The row is read first, then the cell is stored.
\<close>

definition py_index :: "nat \<Rightarrow> int \<Rightarrow> py_error + nat" where
  "py_index len i =
     (let j = (if i < 0 then i + int len else i)
      in if j < 0 \<or> j \<ge> int len then Inl IndexError else Inr (nat j))"

definition set_pixel :: "image \<Rightarrow> int \<Rightarrow> int \<Rightarrow> color \<Rightarrow> py_error + image" where
  "set_pixel img x y col =
     (case py_index (length (pixels img)) y of
        Inl e \<Rightarrow> Inl e
      | Inr j \<Rightarrow>
          (let row = pixels img ! j
           in case py_index (length row) x of
                Inl e \<Rightarrow> Inl e
              | Inr i \<Rightarrow> Inr (img\<lparr>pixels := (pixels img)[j := row[i := Some col]]\<rparr>)))"



subsection \<open>Scene.render\<close>






subsection \<open>The formulas of the specification\<close>

text \<open>
  The per-light term as the specification words it: the direction to the light and the
  direction to the camera are made unit vectors before they are used, and the half vector
  is the normalized sum of the two unit vectors.
\<close>

definition spec_unit :: "vector \<Rightarrow> vector" where
  "spec_unit v = vector_mul v (1 / vector_norm v)"

definition spec_light_contribution :: "vector \<Rightarrow> material \<Rightarrow> point \<Rightarrow> point \<Rightarrow> light \<Rightarrow> color" where
  "spec_light_contribution normal m cam point_hit l =
     (let to_light = spec_unit (vector_sub (position l) point_hit);
          to_cam = spec_unit (vector_sub cam point_hit);
          h = spec_unit (vector_add to_light to_cam)
      in color_add
           (color_mul (color_mul (material.color m) (diffuse m)) (max 0 (dot normal to_light)))
           (color_mul (color_mul (light_color l) (specular m))
              (max 0 (dot normal h) ^ specular_k m)))"



text \<open>
  The grid of an image has \<open>height\<close> rows of \<open>width\<close> cells each: so \<open>Image\<close> builds it,
  and \<open>set_pixel\<close> keeps it so.
\<close>

definition image_ok :: "image \<Rightarrow> bool" where
  "image_ok img \<longleftrightarrow>
     length (pixels img) = nat (height img) \<and>
     list_all (\<lambda>row. length row = nat (width img)) (pixels img)"

subsection \<open>Predicates and sequences for the statements\<close>

text \<open>
  The invariant of the loop of \<open>find_nearest\<close> over the objects seen so far: nothing is
  held while no object has been hit; otherwise the held object is one of them, at some
  index \<open>i\<close>, no hit is nearer than its hit, and every hit before \<open>i\<close> is farther.
\<close>

definition nearest_inv :: "ray \<Rightarrow> sphere list \<Rightarrow> (real \<times> sphere) option \<Rightarrow> bool" where
  "nearest_inv r obs st =
     (case st of
        None \<Rightarrow> (\<forall>ob\<in>set obs. intersect ob r = None)
      | Some (t, ob) \<Rightarrow>
          (\<exists>i<length obs. obs ! i = ob \<and> intersect ob r = Some t \<and>
             (\<forall>j<length obs. \<forall>t'. intersect (obs ! j) r = Some t' \<longrightarrow>
                t \<le> t' \<and> (j < i \<longrightarrow> t < t'))))"



subsection \<open>Example scenes\<close>

text \<open>
  A red unit sphere at the origin, seen from \<open>(0, 0, -2)\<close> along the z axis: the ray meets
  the sphere at \<open>(0, 0, -1)\<close>, where the normal is \<open>(0, 0, -1)\<close>.
\<close>

definition example_material :: material where
  "example_material =
     \<lparr>color = Color 1 0 0, ambient = 5 / 100, diffuse = 1, specular = 1, specular_k = 50\<rparr>"

definition example_sphere :: sphere where
  "example_sphere = \<lparr>center = Vector 0 0 0, radius = 1, material = example_material\<rparr>"

definition example_ray :: ray where
  "example_ray = \<lparr>origin = Vector 0 0 (- 2), direction = Vector 0 0 1\<rparr>"

definition near_light :: light where
  "near_light = \<lparr>position = Vector 0 0 (- 2), light_color = Color 1 1 1\<rparr>"

definition blue_light :: light where
  "blue_light = \<lparr>position = Vector 0 0 (- 2), light_color = Color 0 0 1\<rparr>"

definition far_light :: light where
  "far_light = \<lparr>position = Vector 0 0 (- 4), light_color = Color 1 1 1\<rparr>"

definition example_scene :: "light list \<Rightarrow> scene" where
  "example_scene ls =
     \<lparr>camera = Some (Vector 0 0 (- 2)), objects = [example_sphere], lights = ls\<rparr>"



definition big_sphere :: sphere where
  "big_sphere = \<lparr>center = Vector 0 0 1, radius = 2, material = example_material\<rparr>"

definition tie_scene :: scene where
  "tie_scene =
     \<lparr>camera = Some (Vector 0 0 (- 2)), objects = [big_sphere, example_sphere], lights = []\<rparr>"

text \<open>\<open>Scene()\<close>: no camera, no objects, no lights.\<close>

definition Scene :: scene where
  "Scene = \<lparr>camera = None, objects = [], lights = []\<rparr>"

section \<open>Properties\<close>

subsection \<open>The example scene, evaluated\<close>

lemma intersect_example: "intersect example_sphere example_ray = Some 1"
  by (simp add: intersect_def example_sphere_def example_ray_def squared_norm_def Let_def)

lemma find_nearest_example:
  "find_nearest (example_scene ls) example_ray = (Some (Vector 0 0 (- 1)), Some example_sphere)"
  by (simp add: find_nearest_def example_scene_def find_nearest_step_def intersect_example)
     (simp add: point_at_def example_ray_def)

lemma normal_example: "normal_at example_sphere (Vector 0 0 (- 1)) = Some (Vector 0 0 (- 1))"
  by (simp add: normal_at_def example_sphere_def vector_normalize_def)

lemma near_light_term:
  "color_at_light (Some (Vector 0 0 (- 1))) example_material (Vector 0 0 (- 1))
     (Vector 0 0 (- 1)) near_light = Color 2 1 1"
  by (simp add: color_at_light_def near_light_def example_material_def from_points_def
      vector_normalize_def Let_def)

lemma blue_light_term:
  "color_at_light (Some (Vector 0 0 (- 1))) example_material (Vector 0 0 (- 1))
     (Vector 0 0 (- 1)) blue_light = Color 1 0 1"
  by (simp add: color_at_light_def blue_light_def example_material_def from_points_def
      vector_normalize_def Let_def)

lemma far_light_term:
  "color_at_light (Some (Vector 0 0 (- 1))) example_material (Vector 0 0 (- 1))
     (Vector 0 0 (- 1)) far_light = Color 4 1 1"
  by (simp add: color_at_light_def far_light_def example_material_def from_points_def
      vector_normalize_def Let_def)

lemma color_at_example:
  "color_at (example_scene ls) r (Vector 0 0 (- 1)) example_sphere =
     (case color_at_loop (Some (Vector 0 0 (- 1))) example_material (Vector 0 0 (- 1))
             (Vector 0 0 (- 1)) ls None of
        None \<Rightarrow> Inl UnboundLocalError
      | Some col \<Rightarrow> Inr col)"
  by (simp add: color_at_def example_scene_def normal_example Let_def)
     (simp add: example_sphere_def)

subsection \<open>Shading\<close>


lemma find_nearest_shape:
  "find_nearest s r = (None, None) \<or> (\<exists>p ob. find_nearest s r = (Some p, Some ob))"
  by (simp add: find_nearest_def split: option.splits prod.splits)

text \<open>
  C1. With the lights \<open>near_light\<close> and \<open>blue_light\<close>, whose terms at the hit point are
  \<open>(2, 1, 1)\<close> and \<open>(1, 0, 1)\<close>, \<open>color_at\<close> (and \<open>trace\<close>) returns \<open>(1, 0, 1)\<close>, the term of the
  last light alone, and not the sum \<open>(3, 1, 2)\<close> of the terms of all lights: each iteration
  assigns \<open>color\<close> afresh.
\<close>

theorem color_at_two_lights_not_sum:
  "color_at (example_scene [near_light, blue_light]) example_ray (Vector 0 0 (- 1))
     example_sphere = Inr (Color 1 0 1)
   \<and> trace (example_scene [near_light, blue_light]) example_ray = Inr (Color 1 0 1)
   \<and> color_add
       (color_at_light (Some (Vector 0 0 (- 1))) example_material (Vector 0 0 (- 1))
          (Vector 0 0 (- 1)) near_light)
       (color_at_light (Some (Vector 0 0 (- 1))) example_material (Vector 0 0 (- 1))
          (Vector 0 0 (- 1)) blue_light) = Color 3 1 2"
  by (simp add: trace_def find_nearest_example color_at_example near_light_term blue_light_term)

text \<open>
  C2. With the single light \<open>far_light\<close>, at distance 3 from the hit point, \<open>color_at\<close> (and
  \<open>trace\<close>) returns \<open>(4, 1, 1)\<close>: the diffuse factor is the dot product of the normal with
  the direction to the light as it is, of length 3. The formula of the specification, with
  unit directions, gives \<open>(2, 1, 1)\<close>.
\<close>

theorem color_at_light_direction_not_normalized:
  "color_at (example_scene [far_light]) example_ray (Vector 0 0 (- 1)) example_sphere
     = Inr (Color 4 1 1)
   \<and> trace (example_scene [far_light]) example_ray = Inr (Color 4 1 1)
   \<and> normal_at example_sphere (Vector 0 0 (- 1)) = Some (Vector 0 0 (- 1))
   \<and> spec_light_contribution (Vector 0 0 (- 1)) example_material (Vector 0 0 (- 2))
       (Vector 0 0 (- 1)) far_light = Color 2 1 1"
proof -
  have "spec_light_contribution (Vector 0 0 (- 1)) example_material (Vector 0 0 (- 2))
          (Vector 0 0 (- 1)) far_light = Color 2 1 1"
    by (simp add: spec_light_contribution_def spec_unit_def far_light_def
        example_material_def Let_def)
  then show ?thesis
    by (simp add: trace_def find_nearest_example color_at_example far_light_term normal_example)
qed

text \<open>
  C10. With an empty list of lights \<open>color_at\<close> returns no color but an error: the
  \<open>UnboundLocalError\<close> of \<open>return color\<close> when the camera is set (and the \<open>TypeError\<close> of
  \<open>self.camera - point_hit\<close> when it is not). So does \<open>trace\<close> for every ray that hits an
  object.
\<close>

theorem color_at_no_lights_fails:
  assumes "lights s = []"
  shows "(\<exists>e. color_at s r p ob = Inl e)
    \<and> (camera s \<noteq> None \<longrightarrow> color_at s r p ob = Inl UnboundLocalError)
    \<and> (snd (find_nearest s r) \<noteq> None \<longrightarrow>
         (\<exists>e. trace s r = Inl e) \<and> (camera s \<noteq> None \<longrightarrow> trace s r = Inl UnboundLocalError))"
proof -
  have a: "color_at s r' p' ob' =
      (case camera s of None \<Rightarrow> Inl TypeError | Some cam \<Rightarrow> Inl UnboundLocalError)" for r' p' ob'
    using assms by (simp add: color_at_def Let_def split: option.splits)
  have b: "trace s r = color_at s r p' ob'" if "find_nearest s r = (Some p', Some ob')" for p' ob'
    using that by (simp add: trace_def)
  from find_nearest_shape [of s r] a b show ?thesis
    by (auto split: option.splits)
qed

theorem color_at_no_lights_fails_witness:
  "color_at (example_scene []) example_ray (Vector 0 0 (- 1)) example_sphere
     = Inl UnboundLocalError
   \<and> snd (find_nearest (example_scene []) example_ray) \<noteq> None
   \<and> trace (example_scene []) example_ray = Inl UnboundLocalError"
  using color_at_no_lights_fails [of "example_scene []" example_ray "Vector 0 0 (- 1)" example_sphere]
  by (simp add: find_nearest_example) (simp add: example_scene_def)

subsection \<open>Vectors\<close>

lemma vector_norm_sq: "(vector_norm v)\<^sup>2 = squared_norm v"
  by (cases v) (simp add: squared_norm_def power2_eq_square)

lemma squared_norm_nonneg: "0 \<le> squared_norm v"
  by (cases v) (simp add: squared_norm_def)

lemma squared_norm_zero_iff: "squared_norm v = 0 \<longleftrightarrow> v = Vector 0 0 0"
proof (cases v)
  case (Vector a b c)
  have "0 \<le> a * a" "0 \<le> b * b" "0 \<le> c * c"
    by simp_all
  then have "a * a + b * b + c * c = 0 \<longleftrightarrow> a * a = 0 \<and> b * b = 0 \<and> c * c = 0"
    by linarith
  then have "a * a + b * b + c * c = 0 \<longleftrightarrow> a = 0 \<and> b = 0 \<and> c = 0"
    by simp
  with Vector show ?thesis by (simp add: squared_norm_def)
qed

lemma vector_norm_zero_iff: "vector_norm v = 0 \<longleftrightarrow> v = Vector 0 0 0"
  using squared_norm_zero_iff [of v] vector_norm_sq [of v] by auto


lemma vector_norm_nonneg: "0 \<le> vector_norm v"
  by (cases v) simp




subsection \<open>The background gradient\<close>

text \<open>
  C6, as stated, fails for the direction \<open>(0, -1, 0)\<close>: there \<open>t = -1\<close> and the gradient
  \<open>t*WHITE + (1-t)*BLACK\<close> is \<open>(-1, -1, -1)\<close>, which is not \<open>BLACK = (0, 0, 0)\<close>.
\<close>

theorem bg_color_down_counterexample:
  "bg_color \<lparr>origin = Vector 0 0 0, direction = Vector 0 (- 1) 0\<rparr> = Color (- 1) (- 1) (- 1)
   \<and> BLACK = Color 0 0 0"
  by (simp add: bg_color_def vector_normalize_def WHITE_def BLACK_def Let_def)

text \<open>
  C6, amended. For a ray with a non-zero direction, \<open>bg_color\<close> returns
  \<open>t*WHITE + (1-t)*BLACK\<close>, where \<open>t\<close> is the y component of the normalized direction, the
  direction divided by its norm. The direction \<open>(0, 1, 0)\<close> gives \<open>WHITE\<close>; the direction
  \<open>(0, -1, 0)\<close> gives \<open>(-1, -1, -1)\<close>.
\<close>

theorem bg_color_gradient:
  assumes "direction r \<noteq> Vector 0 0 0"
  shows "bg_color r =
      color_add (color_mul WHITE (vec_y (direction r) / vector_norm (direction r)))
        (color_mul BLACK (1 - vec_y (direction r) / vector_norm (direction r)))
    \<and> vector_normalize (direction r) =
        Some (Vector (vec_x (direction r) / vector_norm (direction r))
                (vec_y (direction r) / vector_norm (direction r))
                (vec_z (direction r) / vector_norm (direction r)))
    \<and> bg_color \<lparr>origin = p, direction = Vector 0 1 0\<rparr> = WHITE
    \<and> bg_color \<lparr>origin = p, direction = Vector 0 (- 1) 0\<rparr> = Color (- 1) (- 1) (- 1)"
  using assms
  by (simp add: bg_color_def vector_normalize_def vector_norm_zero_iff WHITE_def BLACK_def
      Let_def)

theorem bg_color_gradient_witness:
  "bg_color \<lparr>origin = Vector 0 0 0, direction = Vector 0 2 0\<rparr> = Color 1 1 1"
  using bg_color_gradient [of "\<lparr>origin = Vector 0 0 0, direction = Vector 0 2 0\<rparr>"]
  by (simp add: WHITE_def BLACK_def)

subsection \<open>Ray and sphere\<close>






subsection \<open>The nearest hit\<close>

lemma nearest_inv_SomeI:
  assumes "i < length obs" "obs ! i = ob" "intersect ob r = Some t"
    and "\<forall>j<length obs. \<forall>t'. intersect (obs ! j) r = Some t' \<longrightarrow> t \<le> t' \<and> (j < i \<longrightarrow> t < t')"
  shows "nearest_inv r obs (Some (t, ob))"
  using assms by (auto simp: nearest_inv_def)

lemma find_nearest_loop_append:
  "find_nearest_loop r (xs @ ys) st = find_nearest_loop r ys (find_nearest_loop r xs st)"
  by (induction xs arbitrary: st) simp_all

lemma nearest_inv_step:
  assumes "nearest_inv r xs st"
  shows "nearest_inv r (xs @ [x]) (find_nearest_step r st x)"
proof (cases "intersect x r")
  case None
  then have same: "find_nearest_step r st x = st"
    by (simp add: find_nearest_step_def)
  show ?thesis
  proof (cases st)
    case n: None
    with assms None same show ?thesis
      by (simp add: nearest_inv_def)
  next
    case (Some p)
    obtain t ob where p: "p = (t, ob)" by (cases p)
    from assms Some p obtain i where i: "i < length xs" "xs ! i = ob" "intersect ob r = Some t"
      and m: "\<And>j t'. j < length xs \<Longrightarrow> intersect (xs ! j) r = Some t' \<Longrightarrow> t \<le> t' \<and> (j < i \<longrightarrow> t < t')"
      by (auto simp: nearest_inv_def)
    have "\<forall>j<length (xs @ [x]). \<forall>t'. intersect ((xs @ [x]) ! j) r = Some t' \<longrightarrow>
        t \<le> t' \<and> (j < i \<longrightarrow> t < t')"
      using m None by (auto simp: nth_append less_Suc_eq)
    moreover have "i < length (xs @ [x])" "(xs @ [x]) ! i = ob"
      using i by (simp_all add: nth_append)
    moreover have "find_nearest_step r st x = Some (t, ob)"
      using same Some p by simp
    ultimately show ?thesis
      using i(3) by (simp only: nearest_inv_SomeI)
  qed
next
  case hit: (Some d)
  show ?thesis
  proof (cases st)
    case None
    then have new: "find_nearest_step r st x = Some (d, x)"
      using hit by (simp add: find_nearest_step_def)
    from assms None have none: "\<And>j. j < length xs \<Longrightarrow> intersect (xs ! j) r = None"
      by (simp add: nearest_inv_def)
    have "\<forall>j<length (xs @ [x]). \<forall>t'. intersect ((xs @ [x]) ! j) r = Some t' \<longrightarrow>
        d \<le> t' \<and> (j < length xs \<longrightarrow> d < t')"
      using none hit by (auto simp: nth_append less_Suc_eq)
    moreover have "length xs < length (xs @ [x])" "(xs @ [x]) ! length xs = x"
      by simp_all
    ultimately show ?thesis
      using hit by (simp only: new nearest_inv_SomeI)
  next
    case (Some p)
    obtain t ob where p: "p = (t, ob)" by (cases p)
    from assms Some p obtain i where i: "i < length xs" "xs ! i = ob" "intersect ob r = Some t"
      and m: "\<And>j t'. j < length xs \<Longrightarrow> intersect (xs ! j) r = Some t' \<Longrightarrow> t \<le> t' \<and> (j < i \<longrightarrow> t < t')"
      by (auto simp: nearest_inv_def)
    show ?thesis
    proof (cases "d < t")
      case True
      then have new: "find_nearest_step r st x = Some (d, x)"
        using hit Some p by (simp add: find_nearest_step_def)
      have "\<forall>j<length (xs @ [x]). \<forall>t'. intersect ((xs @ [x]) ! j) r = Some t' \<longrightarrow>
          d \<le> t' \<and> (j < length xs \<longrightarrow> d < t')"
        using m hit True by (fastforce simp: nth_append less_Suc_eq)
      moreover have "length xs < length (xs @ [x])" "(xs @ [x]) ! length xs = x"
        by simp_all
      ultimately show ?thesis
        using hit by (simp only: new nearest_inv_SomeI)
    next
      case False
      then have same: "find_nearest_step r st x = Some (t, ob)"
        using hit Some p by (simp add: find_nearest_step_def)
      have "\<forall>j<length (xs @ [x]). \<forall>t'. intersect ((xs @ [x]) ! j) r = Some t' \<longrightarrow>
          t \<le> t' \<and> (j < i \<longrightarrow> t < t')"
        using m hit False i(1) by (auto simp: nth_append less_Suc_eq)
      moreover have "i < length (xs @ [x])" "(xs @ [x]) ! i = ob"
        using i by (simp_all add: nth_append)
      ultimately show ?thesis
        using i(3) by (simp only: same nearest_inv_SomeI)
    qed
  qed
qed

lemma nearest_inv_loop: "nearest_inv r obs (find_nearest_loop r obs None)"
proof (induction obs rule: rev_induct)
  case Nil
  show ?case by (simp add: nearest_inv_def)
next
  case (snoc x xs)
  then show ?case
    by (simp add: find_nearest_loop_append nearest_inv_step)
qed

text \<open>
  C4. When no object of the scene intersects the ray, \<open>find_nearest\<close> returns
  \<open>(None, None)\<close>. Otherwise it returns an object of the list, at some index \<open>i\<close>, with the
  point of the ray at its parameter \<open>t\<close>: no intersecting object has a smaller parameter,
  and every intersecting object before \<open>i\<close> has a strictly larger one, so of the objects
  that tie at the minimum the first in the list is returned.
\<close>

theorem find_nearest_minimal:
  "((\<forall>ob\<in>set (objects s). intersect ob r = None) \<longrightarrow> find_nearest s r = (None, None))
   \<and> ((\<exists>ob\<in>set (objects s). intersect ob r \<noteq> None) \<longrightarrow>
        (\<exists>i t. i < length (objects s) \<and> intersect (objects s ! i) r = Some t
           \<and> find_nearest s r = (Some (point_at r t), Some (objects s ! i))
           \<and> (\<forall>j<length (objects s). \<forall>t'. intersect (objects s ! j) r = Some t' \<longrightarrow>
                 t \<le> t' \<and> (j < i \<longrightarrow> t < t'))))"
proof (cases "find_nearest_loop r (objects s) None")
  case None
  with nearest_inv_loop [of r "objects s"] show ?thesis
    by (simp add: nearest_inv_def find_nearest_def)
next
  case (Some p)
  obtain t ob where p: "p = (t, ob)" by (cases p)
  from nearest_inv_loop [of r "objects s"] Some p
  obtain i where i: "i < length (objects s)" "objects s ! i = ob" "intersect ob r = Some t"
    and m: "\<forall>j<length (objects s). \<forall>t'. intersect (objects s ! j) r = Some t' \<longrightarrow>
        t \<le> t' \<and> (j < i \<longrightarrow> t < t')"
    by (auto simp: nearest_inv_def)
  have f: "find_nearest s r = (Some (point_at r t), Some (objects s ! i))"
    using Some p i by (simp add: find_nearest_def)
  have "\<not> (\<forall>ob\<in>set (objects s). intersect ob r = None)"
    using i by (metis nth_mem option.distinct(1))
  with f i m show ?thesis by blast
qed

theorem find_nearest_minimal_witness:
  "find_nearest tie_scene example_ray = (Some (Vector 0 0 (- 1)), Some big_sphere)
   \<and> intersect big_sphere example_ray = Some 1
   \<and> intersect example_sphere example_ray = Some 1
   \<and> find_nearest Scene example_ray = (None, None)"
proof -
  have big: "intersect big_sphere example_ray = Some 1"
    by (simp add: intersect_def big_sphere_def example_ray_def squared_norm_def Let_def)
  have objs: "objects tie_scene = [big_sphere, example_sphere]"
    by (simp add: tie_scene_def)
  have hit: "\<exists>ob\<in>set (objects tie_scene). intersect ob example_ray \<noteq> None"
    by (simp add: objs big)
  from find_nearest_minimal [of tie_scene example_ray] hit
  have "\<exists>i t. i < length (objects tie_scene)
      \<and> intersect (objects tie_scene ! i) example_ray = Some t
      \<and> find_nearest tie_scene example_ray
          = (Some (point_at example_ray t), Some (objects tie_scene ! i))
      \<and> (\<forall>j<length (objects tie_scene). \<forall>t'.
            intersect (objects tie_scene ! j) example_ray = Some t' \<longrightarrow>
            t \<le> t' \<and> (j < i \<longrightarrow> t < t'))"
    by (rule conjunct2 [THEN mp])
  then obtain i t where i: "i < length (objects tie_scene)"
    and it: "intersect (objects tie_scene ! i) example_ray = Some t"
    and f: "find_nearest tie_scene example_ray
        = (Some (point_at example_ray t), Some (objects tie_scene ! i))"
    and m: "\<forall>j<length (objects tie_scene). \<forall>t'.
        intersect (objects tie_scene ! j) example_ray = Some t' \<longrightarrow>
        t \<le> t' \<and> (j < i \<longrightarrow> t < t')"
    by blast
  have first: "objects tie_scene ! 0 = big_sphere"
    and second: "objects tie_scene ! Suc 0 = example_sphere"
    and len: "length (objects tie_scene) = Suc (Suc 0)"
    by (simp_all add: objs)
  from i have cases: "i = 0 \<or> i = Suc 0"
    unfolding len by arith
  with it have t: "t = 1"
    by (auto simp: first second big intersect_example)
  have "i = 0"
  proof (rule ccontr)
    assume "i \<noteq> 0"
    moreover have "intersect (objects tie_scene ! 0) example_ray = Some 1"
      by (simp add: first big)
    moreover have "0 < length (objects tie_scene)"
      by (simp add: len)
    moreover note m
    ultimately show False
      using t by force
  qed
  with first have ob: "objects tie_scene ! i = big_sphere"
    by simp
  have "find_nearest tie_scene example_ray = (Some (Vector 0 0 (- 1)), Some big_sphere)"
    unfolding f ob t by (simp add: point_at_def example_ray_def)
  moreover have "find_nearest Scene example_ray = (None, None)"
    using find_nearest_minimal [of Scene example_ray] by (simp add: Scene_def)
  ultimately show ?thesis
    by (simp add: big intersect_example)
qed

subsection \<open>The image\<close>

lemma image_ok_Image: "image_ok (Image w h)"
  by (simp add: image_ok_def Image_def py_range_def list_all_iff)

lemma py_index_eq:
  "py_index len i =
     (if - int len \<le> i \<and> i < int len then Inr (nat (if i < 0 then i + int len else i))
      else Inl IndexError)"
  by (auto simp: py_index_def Let_def)

text \<open>
  C8, as stated, fails for negative indices: on a 2 by 2 image, \<open>set_pixel(-1, -1, WHITE)\<close>
  raises nothing and writes the last cell of the last row.
\<close>

theorem set_pixel_negative_index_counterexample:
  "set_pixel (Image 2 2) (- 1) (- 1) WHITE
     = Inr \<lparr>width = 2, height = 2, pixels = [[None, None], [None, Some WHITE]]\<rparr>"
  by (simp add: set_pixel_def Image_def py_range_def py_index_def Let_def numeral_2_eq_2)

text \<open>
  C8, amended. On the grid of an image, \<open>set_pixel(x, y, color)\<close> raises \<open>IndexError\<close>,
  writing nothing, for every pair outside \<open>-width \<le> x < width\<close> and
  \<open>-height \<le> y < height\<close>; for a pair inside these bounds it raises nothing and writes
  exactly one cell, a negative index counting from the end of its axis.
\<close>

theorem set_pixel_faults_outside:
  assumes "image_ok img"
  shows "(\<not> (- width img \<le> x \<and> x < width img \<and> - height img \<le> y \<and> y < height img)
            \<longrightarrow> set_pixel img x y col = Inl IndexError)
       \<and> (- width img \<le> x \<and> x < width img \<and> - height img \<le> y \<and> y < height img
            \<longrightarrow> set_pixel img x y col =
                Inr (img\<lparr>pixels := (pixels img)
                  [nat (if y < 0 then y + height img else y) :=
                     (pixels img ! nat (if y < 0 then y + height img else y))
                       [nat (if x < 0 then x + width img else x) := Some col]]\<rparr>))"
proof -
  have len: "length (pixels img) = nat (height img)"
    using assms by (simp add: image_ok_def)
  have row: "length (pixels img ! j) = nat (width img)" if "j < nat (height img)" for j
    using assms that by (simp add: image_ok_def list_all_length)
  show ?thesis
  proof (cases "- height img \<le> y \<and> y < height img")
    case False
    then show ?thesis
      by (auto simp: set_pixel_def py_index_eq len)
  next
    case True
    define j where "j = nat (if y < 0 then y + height img else y)"
    have j: "j < nat (height img)" using True by (auto simp: j_def)
    have yj: "py_index (length (pixels img)) y = Inr j"
      using True by (auto simp: py_index_eq len j_def)
    have step: "set_pixel img x y col =
        (case py_index (nat (width img)) x of
           Inl e \<Rightarrow> Inl e
         | Inr i \<Rightarrow> Inr (img\<lparr>pixels := (pixels img)[j := (pixels img ! j)[i := Some col]]\<rparr>))"
      by (simp add: set_pixel_def yj row [OF j] Let_def)
    show ?thesis
    proof (cases "- width img \<le> x \<and> x < width img")
      case False
      then show ?thesis
        unfolding step py_index_eq by auto
    next
      case xin: True
      then have "int (nat (width img)) = width img" by auto
      with xin True show ?thesis
        unfolding step py_index_eq j_def by simp
    qed
  qed
qed

theorem set_pixel_faults_outside_witness:
  "set_pixel (Image 2 2) 2 0 BLACK = Inl IndexError
   \<and> set_pixel (Image 2 2) 0 (- 3) BLACK = Inl IndexError
   \<and> set_pixel (Image 2 2) (- 2) 1 BLACK
       = Inr \<lparr>width = 2, height = 2, pixels = [[None, None], [Some BLACK, None]]\<rparr>"
  using set_pixel_faults_outside [OF image_ok_Image, of 2 2 2 0 BLACK]
    set_pixel_faults_outside [OF image_ok_Image, of 2 2 0 "- 3" BLACK]
    set_pixel_faults_outside [OF image_ok_Image, of 2 2 "- 2" 1 BLACK]
  by (simp add: Image_def py_range_def numeral_2_eq_2)

subsection \<open>Bytes\<close>



subsection \<open>Rendering\<close>


















end
